theory Spec2Isabelle
  imports Main "HOL-Library.AList"
begin

section \<open>JavaScript values\<close>

text \<open>
  The serializer of \<^verbatim>\<open>src/client/datascience/notebook/notebookSerliazer.ts\<close> works on
  loosely typed JavaScript values: the result of \<^verbatim>\<open>JSON.parse\<close>, the entries of a
  notebook's metadata, the object handed to \<^verbatim>\<open>JSON.stringify\<close>. They are modelled by
  one datatype. An object is the list of its own properties in enumeration order, with
  distinct keys. Numbers are integers: the numbers the serializer reads and writes are
  the schema versions and a length; the rounding of IEEE doubles is outside the model.
  Strings are lists of 8-bit characters (the UTF-8 encoding of the text).
\<close>

datatype jsval =
    JUndefined
  | JNull
  | JBool bool
  | JNum int
  | JStr string
  | JArr "jsval list"
  | JObj "(string \<times> jsval) list"

text \<open>JavaScript's conversion to a boolean, as used by \<^verbatim>\<open>&&\<close>, \<^verbatim>\<open>||\<close>, \<^verbatim>\<open>!\<close>,
  \<^verbatim>\<open>if\<close> and \<^verbatim>\<open>?:\<close>.\<close>

fun truthy :: "jsval \<Rightarrow> bool" where
  "truthy JUndefined = False"
| "truthy JNull = False"
| "truthy (JBool b) = b"
| "truthy (JNum n) = (n \<noteq> 0)"
| "truthy (JStr s) = (s \<noteq> [])"
| "truthy (JArr xs) = True"
| "truthy (JObj kvs) = True"

text \<open>
  Reading a property, \<^verbatim>\<open>x.k\<close> and \<^verbatim>\<open>x?.k\<close>. On \<^verbatim>\<open>undefined\<close> and \<^verbatim>\<open>null\<close> the
  optional chain yields \<^verbatim>\<open>undefined\<close>; the serializer reads a property with a plain
  \<^verbatim>\<open>.\<close> only behind a truthiness test of the object. The keys it reads are
  \<^verbatim>\<open>cells\<close>, \<^verbatim>\<open>metadata\<close>, \<^verbatim>\<open>nbformat\<close>, \<^verbatim>\<open>nbformat_minor\<close> and \<^verbatim>\<open>length\<close>, none of them
  an index, so of an array and of a string only \<^verbatim>\<open>length\<close> is modelled.
\<close>

fun getprop :: "jsval \<Rightarrow> string \<Rightarrow> jsval" where
  "getprop (JObj kvs) k = (case map_of kvs k of Some v \<Rightarrow> v | None \<Rightarrow> JUndefined)"
| "getprop (JArr xs) k = (if k = ''length'' then JNum (int (length xs)) else JUndefined)"
| "getprop (JStr s) k = (if k = ''length'' then JNum (int (length s)) else JUndefined)"
| "getprop v k = JUndefined"

text \<open>Assigning a property of an object, \<^verbatim>\<open>x.k = v\<close>: an existing key keeps its place,
  a new key goes last. The serializer assigns only to objects.\<close>

fun setprop :: "jsval \<Rightarrow> string \<Rightarrow> jsval \<Rightarrow> jsval" where
  "setprop (JObj kvs) k v = JObj (AList.update k v kvs)"
| "setprop x k v = x"

text \<open>The own enumerable properties an object spread \<^verbatim>\<open>{...x}\<close> copies. The spread
  of \<^verbatim>\<open>undefined\<close>, \<^verbatim>\<open>null\<close>, a boolean, a number or the empty string copies nothing;
  the serializer never spreads an array or a non-empty string
  (lemma \<open>past_guard_cases\<close> below).\<close>

fun spread :: "jsval \<Rightarrow> (string \<times> jsval) list" where
  "spread (JObj kvs) = kvs"
| "spread v = []"

text \<open>\<^verbatim>\<open>a || b\<close>.\<close>

definition or_else :: "jsval \<Rightarrow> jsval \<Rightarrow> jsval" where
  "or_else a b = (if truthy a then a else b)"

section \<open>JSON.stringify\<close>

text \<open>
  \<^verbatim>\<open>JSON.stringify(value, undefined, space)\<close> after ECMA-262: \<open>SerializeJSONProperty\<close>
  with \<open>SerializeJSONObject\<close> and \<open>SerializeJSONArray\<close> inlined. A property whose
  value is \<^verbatim>\<open>undefined\<close> is left out of an object and written \<^verbatim>\<open>null\<close> in an array; the
  gap is the first ten characters of a string \<open>space\<close>; with an empty gap the text has
  no line breaks.
\<close>

definition hexdigit :: "nat \<Rightarrow> char" where
  "hexdigit n = ''0123456789abcdef'' ! (n mod 16)"

definition QuoteJSONChar :: "char \<Rightarrow> string" where
  "QuoteJSONChar ch =
     (if ch = CHR 0x22 then [CHR 0x5C, CHR 0x22]
      else if ch = CHR 0x5C then [CHR 0x5C, CHR 0x5C]
      else if ch = CHR 0x08 then [CHR 0x5C, CHR ''b'']
      else if ch = CHR 0x09 then [CHR 0x5C, CHR ''t'']
      else if ch = CHR 0x0A then [CHR 0x5C, CHR ''n'']
      else if ch = CHR 0x0C then [CHR 0x5C, CHR ''f'']
      else if ch = CHR 0x0D then [CHR 0x5C, CHR ''r'']
      else if (of_char ch :: nat) < 32
        then [CHR 0x5C, CHR ''u'', CHR ''0'', CHR ''0'',
              hexdigit (of_char ch div 16), hexdigit (of_char ch mod 16)]
      else [ch])"

definition QuoteJSONString :: "string \<Rightarrow> string" where
  "QuoteJSONString s = CHR 0x22 # concat (map QuoteJSONChar s) @ [CHR 0x22]"

fun string_of_nat :: "nat \<Rightarrow> string" where
  "string_of_nat n =
     (if n < 10 then [hexdigit n] else string_of_nat (n div 10) @ [hexdigit (n mod 10)])"

declare string_of_nat.simps [simp del]

definition string_of_int :: "int \<Rightarrow> string" where
  "string_of_int i = (if i < 0 then CHR ''-'' # string_of_nat (nat (- i)) else string_of_nat (nat i))"

fun join :: "string \<Rightarrow> string list \<Rightarrow> string" where
  "join sep [] = []"
| "join sep [x] = x"
| "join sep (x # y # ys) = x @ sep @ join sep (y # ys)"

definition wrap :: "string \<Rightarrow> string \<Rightarrow> string \<Rightarrow> string \<Rightarrow> string list \<Rightarrow> string" where
  "wrap l r gap stepback partial =
     (if partial = [] then l @ r
      else if gap = [] then l @ join '','' partial @ r
      else l @ ''\<newline>'' @ stepback @ gap
             @ join ('','' @ ''\<newline>'' @ stepback @ gap) partial
             @ ''\<newline>'' @ stepback @ r)"

definition member :: "string \<Rightarrow> string \<Rightarrow> string option \<Rightarrow> string list" where
  "member gap k strP =
     (case strP of
        None \<Rightarrow> []
      | Some s \<Rightarrow> [QuoteJSONString k @ '':'' @ (if gap = [] then [] else '' '') @ s])"

definition element :: "string option \<Rightarrow> string" where
  "element strP = (case strP of None \<Rightarrow> ''null'' | Some s \<Rightarrow> s)"

primrec SerializeJSONProperty :: "jsval \<Rightarrow> string \<Rightarrow> string \<Rightarrow> string option" where
  "SerializeJSONProperty JUndefined = (\<lambda>gap indent. None)"
| "SerializeJSONProperty JNull = (\<lambda>gap indent. Some ''null'')"
| "SerializeJSONProperty (JBool b) = (\<lambda>gap indent. Some (if b then ''true'' else ''false''))"
| "SerializeJSONProperty (JNum n) = (\<lambda>gap indent. Some (string_of_int n))"
| "SerializeJSONProperty (JStr s) = (\<lambda>gap indent. Some (QuoteJSONString s))"
| "SerializeJSONProperty (JArr xs) = (\<lambda>gap indent.
     Some (wrap ''['' '']'' gap indent
       (map (\<lambda>f. element (f gap (indent @ gap))) (map SerializeJSONProperty xs))))"
| "SerializeJSONProperty (JObj kvs) = (\<lambda>gap indent.
     Some (wrap ''{'' ''}'' gap indent
       (concat (map (\<lambda>(k, f). member gap k (f gap (indent @ gap)))
                  (map (map_prod id SerializeJSONProperty) kvs)))))"

definition JSON_stringify :: "jsval \<Rightarrow> string \<Rightarrow> string option" where
  "JSON_stringify v space = SerializeJSONProperty v (take 10 space) []"

section \<open>The notebook model, the collaborators and the world\<close>

text \<open>
  \<^verbatim>\<open>NotebookData\<close> of the editor's API: the cells and the metadata. The metadata is a
  mapping from keys to values; \<^verbatim>\<open>'k' in data.metadata\<close> is \<open>metadata data k \<noteq> None\<close>
  and \<^verbatim>\<open>data.metadata.with(change)\<close> is the mapping overridden by \<open>change\<close>. The cell
  type of the editor is owned by the per-cell converters and stays a type parameter.
\<close>

record 'cell NotebookData =
  cells :: "'cell list"
  metadata :: "string \<rightharpoonup> jsval"

text \<open>The argument of \<^verbatim>\<open>serialize\<close>: a live \<^verbatim>\<open>NotebookDocument\<close> (it has a \<^verbatim>\<open>viewType\<close>
  and gives its cells through \<^verbatim>\<open>getCells()\<close>) or a \<^verbatim>\<open>NotebookData\<close>.\<close>

datatype 'cell notebook =
    Document (viewType: string) (getCells: "'cell list") (document_metadata: "string \<rightharpoonup> jsval")
  | Data "'cell NotebookData"

fun metadata_of :: "'cell notebook \<Rightarrow> (string \<rightharpoonup> jsval)" where
  "metadata_of (Document vt cs md) = md"
| "metadata_of (Data d) = metadata d"

text \<open>Lines 97 to 104, the test \<^verbatim>\<open>'viewType' in data\<close>: \<^verbatim>\<open>data.getCells()\<close> of a document,
  \<^verbatim>\<open>data.cells\<close> otherwise.\<close>

fun cells_of :: "'cell notebook \<Rightarrow> 'cell list" where
  "cells_of (Document vt cs md) = cs"
| "cells_of (Data d) = cells d"

text \<open>
  An exception is a value. \<open>SyntaxError\<close> is what \<^verbatim>\<open>JSON.parse\<close> throws (the
  malformed-input error); \<open>TypeError\<close> is what \<^verbatim>\<open>Buffer.from\<close> throws on
  \<^verbatim>\<open>undefined\<close>; \<open>CollaboratorFailure\<close> carries whatever an imported function threw.
\<close>

datatype error = SyntaxError | TypeError | CollaboratorFailure string

text \<open>
  What the serializer imports and calls. None of it is defined in the serializer's file,
  so each is a parameter: \<^verbatim>\<open>JSON.parse\<close> (\<open>None\<close> when it throws), the \<^verbatim>\<open>indent\<close>
  field of \<^verbatim>\<open>detectIndent\<close>'s result, the identifier the \<open>n\<close>-th call of \<^verbatim>\<open>uuid()\<close>
  returns, the telemetry callback (\<open>Some e\<close> when it throws \<open>e\<close>), the language
  service, the converters in both directions, \<^verbatim>\<open>pruneCell\<close>, and the metadata of a
  \<^verbatim>\<open>new NotebookData([])\<close>.
\<close>

record 'cell collaborators =
  JSON_parse :: "string \<Rightarrow> jsval option"
  detectIndent :: "string \<Rightarrow> string"
  uuid :: "nat \<Rightarrow> string"
  sendLanguageTelemetry :: "jsval \<Rightarrow> string option"
  getPreferredLanguage :: "jsval \<Rightarrow> string + string"
  notebookModelToVSCNotebookData ::
    "jsval \<Rightarrow> jsval \<Rightarrow> string \<Rightarrow> jsval \<Rightarrow> string + 'cell NotebookData"
  createJupyterCellFromVSCNotebookCell :: "'cell \<Rightarrow> string + jsval"
  pruneCell :: "jsval \<Rightarrow> string + jsval"
  new_NotebookDocumentMetadata :: "string \<rightharpoonup> jsval"

text \<open>The effects of a call that outlive it: how many identifiers \<^verbatim>\<open>uuid()\<close> has
  issued, and the documents the telemetry callback was called with.\<close>

record world =
  uuid_calls :: nat
  telemetry_sent :: "jsval list"

section \<open>deserializeNotebook\<close>

text \<open>
  Lines 28 and 29. \<open>contents\<close> is the text of the bytes: \<^verbatim>\<open>Buffer.from(content).toString()\<close>
  never throws and is empty exactly when there are no bytes. Empty text is not parsed:
  \<open>json\<close> is \<^verbatim>\<open>undefined\<close>.
\<close>

definition parse_contents :: "'cell collaborators \<Rightarrow> string \<Rightarrow> error + jsval" where
  "parse_contents c contents =
     (if contents \<noteq> [] then
        (case JSON_parse c contents of None \<Rightarrow> Inl SyntaxError | Some v \<Rightarrow> Inr v)
      else Inr JUndefined)"

text \<open>The guard of line 32, \<^verbatim>\<open>json && !json.cells\<close>.\<close>

definition no_cells :: "jsval \<Rightarrow> bool" where
  "no_cells json = (truthy json \<and> \<not> truthy (getprop json ''cells''))"

text \<open>Lines 46 to 56: \<open>json\<close> after the test \<^verbatim>\<open>json?.cells?.length === 0\<close> and the
  assignment of the blank cell.\<close>

definition blank_cell :: jsval where
  "blank_cell = JObj [(''cell_type'', JStr ''code''), (''execution_count'', JNull),
     (''metadata'', JObj []), (''outputs'', JArr []), (''source'', JStr [])]"

definition ensure_blank_cell :: "jsval \<Rightarrow> jsval" where
  "ensure_blank_cell json =
     (if getprop (getprop json ''cells'') ''length'' = JNum 0
      then setprop json ''cells'' (JArr [blank_cell]) else json)"

text \<open>Lines 63 to 69: the three \<^verbatim>\<open>data.metadata.with(...)\<close>, given the identifier that
  \<^verbatim>\<open>uuid()\<close> returned.\<close>

definition load_metadata ::
  "jsval \<Rightarrow> string \<Rightarrow> string \<Rightarrow> (string \<rightharpoonup> jsval) \<Rightarrow> (string \<rightharpoonup> jsval)" where
  "load_metadata json indentAmount vsc_id md =
     (let md1 = md ++ [''indentAmount'' \<mapsto> JStr indentAmount, ''__vsc_id'' \<mapsto> JStr vsc_id];
          md2 = (if truthy (getprop json ''nbformat'')
                 then md1 ++ [''nbformat'' \<mapsto> getprop json ''nbformat''] else md1)
      in if truthy (getprop json ''nbformat_minor'')
         then md2 ++ [''nbformat_minor'' \<mapsto> getprop json ''nbformat_minor''] else md2)"

text \<open>
  Lines 27 to 72. The cancellation token is never read. The world records the call of
  the telemetry callback (line 42) and of \<^verbatim>\<open>uuid()\<close> (line 63); an exception leaves
  with the world as it stands.
\<close>

definition deserializeNotebook ::
  "'cell collaborators \<Rightarrow> string \<Rightarrow> world \<Rightarrow> (error + 'cell NotebookData) \<times> world" where
  "deserializeNotebook c contents w =
    (case parse_contents c contents of
       Inl e \<Rightarrow> (Inl e, w)
     | Inr json \<Rightarrow>
        (if no_cells json then
           (Inr \<lparr>cells = [], metadata = new_NotebookDocumentMetadata c\<rparr>, w)
         else
           (let indentAmount = (if contents \<noteq> [] then detectIndent c contents else '' '');
                w1 = (if truthy json then w\<lparr>telemetry_sent := telemetry_sent w @ [json]\<rparr> else w)
            in
            (case (if truthy json then sendLanguageTelemetry c json else None) of
               Some e \<Rightarrow> (Inl (CollaboratorFailure e), w1)
             | None \<Rightarrow>
                (case getPreferredLanguage c (getprop json ''metadata'') of
                   Inl e \<Rightarrow> (Inl (CollaboratorFailure e), w1)
                 | Inr preferredCellLanguage \<Rightarrow>
                    (let json2 = ensure_blank_cell json in
                     (case notebookModelToVSCNotebookData c
                             (JObj (AList.update ''cells'' (JArr []) (spread json2)))
                             (or_else (getprop json2 ''cells'') (JArr []))
                             preferredCellLanguage
                             (or_else json2 (JObj [])) of
                        Inl e \<Rightarrow> (Inl (CollaboratorFailure e), w1)
                      | Inr data \<Rightarrow>
                         (Inr (data\<lparr>metadata :=
                                 load_metadata json2 indentAmount (uuid c (uuid_calls w1))
                                   (metadata data)\<rparr>),
                          w1\<lparr>uuid_calls := Suc (uuid_calls w1)\<rparr>))))))))"

section \<open>serialize\<close>

text \<open>\<^verbatim>\<open>xs.map(f)\<close> with an \<open>f\<close> that may throw: the first exception ends the map.\<close>

fun map_throw :: "('a \<Rightarrow> string + 'b) \<Rightarrow> 'a list \<Rightarrow> error + 'b list" where
  "map_throw f [] = Inr []"
| "map_throw f (x # xs) =
     (case f x of
        Inl e \<Rightarrow> Inl (CollaboratorFailure e)
      | Inr y \<Rightarrow> (case map_throw f xs of Inl e \<Rightarrow> Inl e | Inr ys \<Rightarrow> Inr (y # ys)))"

text \<open>Lines 92 to 95: the indentation handed to \<^verbatim>\<open>JSON.stringify\<close>.\<close>

definition indentAmount_of :: "(string \<rightharpoonup> jsval) \<Rightarrow> string" where
  "indentAmount_of md = (case md ''indentAmount'' of Some (JStr s) \<Rightarrow> s | _ \<Rightarrow> '' '')"

text \<open>Lines 80 to 104: the object \<^verbatim>\<open>json\<close> as it stands when line 106 stringifies it.
  Both branches of \<^verbatim>\<open>'viewType' in data\<close> convert the cells the same way, every cell
  first through the converter, then every converted cell through \<^verbatim>\<open>pruneCell\<close>.\<close>

definition serialize_json :: "'cell collaborators \<Rightarrow> 'cell notebook \<Rightarrow> error + jsval" where
  "serialize_json c data =
    (let json0 = JObj [(''cells'', JArr []),
                       (''metadata'', JObj [(''orig_nbformat'', JNum 4)]),
                       (''nbformat'', JNum 4),
                       (''nbformat_minor'', JNum 2)];
         json1 = (case metadata_of data ''nbformat'' of
                    Some v \<Rightarrow> setprop json0 ''nbformat'' v | None \<Rightarrow> json0);
         json2 = (case metadata_of data ''nbformat_minor'' of
                    Some v \<Rightarrow> setprop json1 ''nbformat'' v | None \<Rightarrow> json1)
     in case map_throw (createJupyterCellFromVSCNotebookCell c) (cells_of data) of
          Inl e \<Rightarrow> Inl e
        | Inr jcs \<Rightarrow>
           (case map_throw (pruneCell c) jcs of
              Inl e \<Rightarrow> Inl e
            | Inr pcs \<Rightarrow> Inr (setprop json2 ''cells'' (JArr pcs))))"

text \<open>Lines 79 to 107. The result is \<^verbatim>\<open>JSON.stringify\<close>'s: a string, or \<^verbatim>\<open>undefined\<close>
  (\<open>None\<close>).\<close>

definition serialize :: "'cell collaborators \<Rightarrow> 'cell notebook \<Rightarrow> error + string option" where
  "serialize c data =
    (case serialize_json c data of
       Inl e \<Rightarrow> Inl e
     | Inr json \<Rightarrow> Inr (JSON_stringify json (indentAmount_of (metadata_of data))))"

text \<open>Lines 73 to 78. \<^verbatim>\<open>Buffer.from(s, 'utf-8')\<close> is the text itself, and throws a
  \<open>TypeError\<close> on \<^verbatim>\<open>undefined\<close>.\<close>

definition serializeNotebookDocument ::
  "'cell collaborators \<Rightarrow> string \<Rightarrow> 'cell list \<Rightarrow> (string \<rightharpoonup> jsval) \<Rightarrow> error + string option" where
  "serializeNotebookDocument c vt cs md = serialize c (Document vt cs md)"

definition serializeNotebook :: "'cell collaborators \<Rightarrow> 'cell NotebookData \<Rightarrow> error + string" where
  "serializeNotebook c data =
    (case serialize c (Data data) of
       Inl e \<Rightarrow> Inl e
     | Inr None \<Rightarrow> Inl TypeError
     | Inr (Some s) \<Rightarrow> Inr s)"

section \<open>What the specification says of the converters\<close>

text \<open>
  Modelled from the spec: the converter \<^verbatim>\<open>notebookModelToVSCNotebookData\<close>, whose code is
  not among the sources, as far as section 4.1, step 7 is needed below: of the one
  blank cell (a code cell with \<^verbatim>\<open>null\<close> execution count and empty metadata, outputs and
  source) it makes one cell model.
\<close>

definition blank_cell_becomes_one_cell :: "'cell collaborators \<Rightarrow> bool" where
  "blank_cell_becomes_one_cell c =
     (\<forall>stripped lang original d.
        notebookModelToVSCNotebookData c stripped
          (JArr [JObj [(''cell_type'', JStr ''code''), (''execution_count'', JNull),
                       (''metadata'', JObj []), (''outputs'', JArr []), (''source'', JStr [])]])
          lang original = Inr d
          \<longrightarrow> length (cells d) = 1)"

text \<open>
  Modelled from the spec: the per-cell converters, whose code is not among the sources,
  as mutual inverses (section 8): converting the cell models that the converter made
  of a non-empty sequence of stored cells, and pruning them, gives the stored cells
  back.
\<close>

definition converters_are_inverse :: "'cell collaborators \<Rightarrow> bool" where
  "converters_are_inverse c =
     (\<forall>stripped cs lang original d0.
        cs \<noteq> [] \<and>
        notebookModelToVSCNotebookData c stripped (JArr cs) lang original = Inr d0
          \<longrightarrow> (\<exists>jcs. map_throw (createJupyterCellFromVSCNotebookCell c) (cells d0) = Inr jcs \<and>
                     map_throw (pruneCell c) jcs = Inr cs))"

section \<open>A worked instance\<close>

text \<open>
  Concrete collaborators on which the calls below are evaluated. The cell of the model
  is the stored cell with its language tag.
\<close>

text \<open>
  Modelled from the spec: the converter \<^verbatim>\<open>notebookModelToVSCNotebookData\<close> of
  \<^verbatim>\<open>helpers/helpers.ts\<close>, which is not among the sources. After section 4.1, steps 7 and
  8: the stored cells become cell models in their order, tagged with the preferred
  language, and the metadata of the model are the top-level fields of the document
  other than \<^verbatim>\<open>cells\<close>. Cells that are not a sequence cannot be mapped over.
\<close>

definition example_notebookModelToVSCNotebookData ::
  "jsval \<Rightarrow> jsval \<Rightarrow> string \<Rightarrow> jsval \<Rightarrow> string + (string \<times> jsval) NotebookData" where
  "example_notebookModelToVSCNotebookData notebookContentWithoutCells nbCells preferredLanguage originalJson =
     (case nbCells of
        JArr cs \<Rightarrow>
          Inr \<lparr>cells = map (\<lambda>cell. (preferredLanguage, cell)) cs,
               metadata = map_of (AList.delete ''cells'' (spread notebookContentWithoutCells))\<rparr>
      | _ \<Rightarrow> Inl ''nbCells.map is not a function'')"

text \<open>An indentation detector for the examples: the white space that starts the
  second line.\<close>

definition example_detectIndent :: "string \<Rightarrow> string" where
  "example_detectIndent s =
     takeWhile (\<lambda>ch. ch = CHR '' '' \<or> ch = CHR 0x09)
       (drop 1 (dropWhile (\<lambda>ch. ch \<noteq> CHR 0x0A) s))"

text \<open>The example texts, and \<^verbatim>\<open>JSON.parse\<close> on them.\<close>

definition scenario_text :: string where
  \<open>scenario_text =
     ''{"cells": [{"cell_type":"markdown","metadata":{},"source":"# Hi"}], "nbformat":4, "nbformat_minor":2}''\<close>

definition scenario_json :: jsval where
  "scenario_json = JObj
     [(''cells'', JArr [JObj [(''cell_type'', JStr ''markdown''), (''metadata'', JObj []),
                              (''source'', JStr ''# Hi'')]]),
      (''nbformat'', JNum 4),
      (''nbformat_minor'', JNum 2)]"

definition indented_text :: string where
  \<open>indented_text = ''{\<newline>    "cells": [],\<newline>    "nbformat": 4\<newline>}''\<close>

definition indented_json :: jsval where
  "indented_json = JObj [(''cells'', JArr []), (''nbformat'', JNum 4)]"

definition indented_no_cells_text :: string where
  \<open>indented_no_cells_text = ''{\<newline>    "nbformat": 4\<newline>}''\<close>

definition example_JSON_parse :: "string \<Rightarrow> jsval option" where
  \<open>example_JSON_parse = map_of
     [(scenario_text, scenario_json),
      (indented_text, indented_json),
      (indented_no_cells_text, JObj [(''nbformat'', JNum 4)]),
      (''{"cells":[]}'', JObj [(''cells'', JArr [])]),
      (''{"cells":5}'', JObj [(''cells'', JNum 5)]),
      (''{"cells":null}'', JObj [(''cells'', JNull)]),
      (''{}'', JObj []),
      (''null'', JNull)]\<close>

definition example :: "(string \<times> jsval) collaborators" where
  "example =
     \<lparr>JSON_parse = example_JSON_parse,
      detectIndent = example_detectIndent,
      uuid = (\<lambda>n. ''notebook-'' @ replicate n (CHR ''i'')),
      sendLanguageTelemetry = (\<lambda>json. None),
      getPreferredLanguage = (\<lambda>md. Inr ''python''),
      notebookModelToVSCNotebookData = example_notebookModelToVSCNotebookData,
      createJupyterCellFromVSCNotebookCell = (\<lambda>cell. Inr (snd cell)),
      pruneCell = (\<lambda>cell. Inr cell),
      new_NotebookDocumentMetadata = [''trusted'' \<mapsto> JBool True]\<rparr>"

definition w0 :: world where
  "w0 = \<lparr>uuid_calls = 0, telemetry_sent = []\<rparr>"

section \<open>Basic facts\<close>

lemma getprop_setprop_obj:
  "getprop (setprop (JObj kvs) k v) k' = (if k' = k then v else getprop (JObj kvs) k')"
  by (simp add: update_conv')

text \<open>Past the guard of line 32 \<open>json\<close> is falsy or an object with truthy cells, so
  lines 47 and 58 assign to and spread an object or nothing.\<close>

lemma past_guard_cases:
  "\<not> no_cells json \<Longrightarrow> \<not> truthy json \<or> (\<exists>kvs. json = JObj kvs \<and> truthy (getprop json ''cells''))"
  by (cases json) (auto simp: no_cells_def)

lemma deserialize_syntax_error:
  "parse_contents c contents = Inl e \<Longrightarrow> deserializeNotebook c contents w = (Inl e, w)"
  by (simp add: deserializeNotebook_def)

lemma parse_contents_error:
  "parse_contents c contents = Inl e \<longleftrightarrow> e = SyntaxError \<and> contents \<noteq> [] \<and> JSON_parse c contents = None"
  by (auto simp: parse_contents_def split: option.splits)

lemma deserialize_short_circuit:
  "parse_contents c contents = Inr json \<Longrightarrow> no_cells json \<Longrightarrow>
   deserializeNotebook c contents w =
     (Inr \<lparr>cells = [], metadata = new_NotebookDocumentMetadata c\<rparr>, w)"
  by (simp add: deserializeNotebook_def)

lemma deserialize_success:
  assumes "parse_contents c contents = Inr json" and "\<not> no_cells json"
    and "deserializeNotebook c contents w = (Inr d, w')"
  shows "\<exists>lang d0.
      getPreferredLanguage c (getprop json ''metadata'') = Inr lang \<and>
      notebookModelToVSCNotebookData c
        (JObj (AList.update ''cells'' (JArr []) (spread (ensure_blank_cell json))))
        (or_else (getprop (ensure_blank_cell json) ''cells'') (JArr []))
        lang
        (or_else (ensure_blank_cell json) (JObj [])) = Inr d0 \<and>
      d = d0\<lparr>metadata := load_metadata (ensure_blank_cell json)
                 (if contents \<noteq> [] then detectIndent c contents else '' '')
                 (uuid c (uuid_calls w)) (metadata d0)\<rparr> \<and>
      uuid_calls w' = Suc (uuid_calls w)"
  using assms
  by (auto simp: deserializeNotebook_def Let_def split: option.splits sum.splits if_splits)

lemma load_metadata_vsc_id: "load_metadata json ind vid md ''__vsc_id'' = Some (JStr vid)"
  by (simp add: load_metadata_def Let_def)

lemma load_metadata_indentAmount: "load_metadata json ind vid md ''indentAmount'' = Some (JStr ind)"
  by (simp add: load_metadata_def Let_def)

lemma deserialize_telemetry_sent:
  assumes "parse_contents c contents = Inr json" and "\<not> no_cells json" and "truthy json"
  shows "telemetry_sent (snd (deserializeNotebook c contents w)) = telemetry_sent w @ [json]"
  using assms
  by (auto simp: deserializeNotebook_def Let_def split: option.splits sum.splits)

lemma deserialize_past_guard:
  assumes "parse_contents c contents = Inr json" and "\<not> no_cells json"
    and "\<not> truthy json \<or> sendLanguageTelemetry c json = None"
    and "getPreferredLanguage c (getprop json ''metadata'') = Inr lang"
    and "notebookModelToVSCNotebookData c
           (JObj (AList.update ''cells'' (JArr []) (spread (ensure_blank_cell json))))
           (or_else (getprop (ensure_blank_cell json) ''cells'') (JArr []))
           lang
           (or_else (ensure_blank_cell json) (JObj [])) = Inr d0"
  shows "deserializeNotebook c contents w =
     (Inr (d0\<lparr>metadata := load_metadata (ensure_blank_cell json)
                 (if contents \<noteq> [] then detectIndent c contents else '' '')
                 (uuid c (uuid_calls w)) (metadata d0)\<rparr>),
      (if truthy json then w\<lparr>telemetry_sent := telemetry_sent w @ [json]\<rparr> else w)
        \<lparr>uuid_calls := Suc (uuid_calls w)\<rparr>)"
  using assms
  by (auto simp: deserializeNotebook_def Let_def split: option.splits sum.splits)

text \<open>The object that line 106 stringifies.\<close>

lemma serialize_json_shape:
  assumes "serialize_json c data = Inr json"
  shows "\<exists>pcs. json = JObj [(''cells'', JArr pcs),
           (''metadata'', JObj [(''orig_nbformat'', JNum 4)]),
           (''nbformat'', (case metadata_of data ''nbformat_minor'' of
                             Some v \<Rightarrow> v
                           | None \<Rightarrow> (case metadata_of data ''nbformat'' of
                                        Some v \<Rightarrow> v | None \<Rightarrow> JNum 4))),
           (''nbformat_minor'', JNum 2)]"
  using assms
  by (auto simp: serialize_json_def Let_def split: option.splits sum.splits)

lemma serialize_via_json:
  "serialize c data = Inr out \<longleftrightarrow>
   (\<exists>json. serialize_json c data = Inr json \<and>
      out = JSON_stringify json (indentAmount_of (metadata_of data)))"
  by (auto simp: serialize_def split: sum.splits)

text \<open>The text of that object when the gap is not empty.\<close>

lemma quote_keys:
  \<open>QuoteJSONString ''cells'' = ''"cells"''\<close>
  \<open>QuoteJSONString ''metadata'' = ''"metadata"''\<close>
  \<open>QuoteJSONString ''orig_nbformat'' = ''"orig_nbformat"''\<close>
  \<open>QuoteJSONString ''nbformat'' = ''"nbformat"''\<close>
  \<open>QuoteJSONString ''nbformat_minor'' = ''"nbformat_minor"''\<close>
  by (simp_all add: QuoteJSONString_def QuoteJSONChar_def)

lemma string_of_small: "string_of_int 4 = ''4''" "string_of_int 2 = ''2''"
  by (simp_all add: string_of_int_def string_of_nat.simps hexdigit_def)

lemma array_text_defined: "\<exists>y. SerializeJSONProperty (JArr xs) gap indent = Some y"
  by simp

lemma stringify_notebook_layout:
  assumes "g = take 10 space" and "g \<noteq> []"
  shows \<open>JSON_stringify (JObj [(''cells'', JArr pcs),
           (''metadata'', JObj [(''orig_nbformat'', JNum 4)]),
           (''nbformat'', v),
           (''nbformat_minor'', JNum 2)]) space =
     Some (''{'' @ ''\<newline>'' @ g @ ''"cells": '' @ element (SerializeJSONProperty (JArr pcs) g g)
           @ '','' @ ''\<newline>'' @ g @ ''"metadata": {'' @ ''\<newline>'' @ g @ g @ ''"orig_nbformat": 4''
           @ ''\<newline>'' @ g @ ''}''
           @ (case SerializeJSONProperty v g g of None \<Rightarrow> []
              | Some s \<Rightarrow> '','' @ ''\<newline>'' @ g @ ''"nbformat": '' @ s)
           @ '','' @ ''\<newline>'' @ g @ ''"nbformat_minor": 2'' @ ''\<newline>'' @ ''}'')\<close>
  using assms
  by (simp add: JSON_stringify_def wrap_def member_def element_def quote_keys string_of_small
      array_text_defined split: option.splits del: SerializeJSONProperty.simps(6))

lemma parse_contents_update [simp]:
  "parse_contents (c\<lparr>sendLanguageTelemetry := t\<rparr>) contents = parse_contents c contents"
  by (simp add: parse_contents_def)

lemma deserialize_error_cases:
  "fst (deserializeNotebook c contents w) = Inl SyntaxError \<longleftrightarrow>
     parse_contents c contents = Inl SyntaxError"
proof (cases "parse_contents c contents")
  case (Inl e)
  then show ?thesis by (simp add: deserializeNotebook_def)
next
  case (Inr json)
  then have "fst (deserializeNotebook c contents w) \<noteq> Inl SyntaxError"
    by (simp add: deserializeNotebook_def Let_def split: sum.splits option.splits)
  with Inr show ?thesis by simp
qed

lemma serialize_json_cells:
  assumes "map_throw (createJupyterCellFromVSCNotebookCell c) (cells_of data) = Inr jcs"
    and "map_throw (pruneCell c) jcs = Inr pcs"
  shows "\<exists>json. serialize_json c data = Inr json \<and> getprop json ''cells'' = JArr pcs"
  using assms
  by (simp add: serialize_json_def Let_def update_conv' split: option.splits)

lemma map_throw_Inr: "map_throw (\<lambda>x. Inr (f x)) xs = Inr (map f xs)"
  by (induction xs) auto

lemma object_text_defined: "\<exists>y. SerializeJSONProperty (JObj kvs) gap indent = Some y"
  by simp

lemma map_throw_error: "map_throw f xs = Inl e \<Longrightarrow> \<exists>msg. e = CollaboratorFailure msg"
  by (induction xs arbitrary: e) (auto split: sum.splits)

lemmas stringify_defs = serialize_def serialize_json_def JSON_stringify_def wrap_def member_def
  element_def QuoteJSONString_def QuoteJSONChar_def string_of_int_def string_of_nat.simps
  hexdigit_def indentAmount_of_def

section \<open>The worked instance, evaluated\<close>

lemmas example_texts = scenario_text_def indented_text_def indented_no_cells_text_def

lemma example_parse:
  \<open>parse_contents example ''{"cells":[]}'' = Inr (JObj [(''cells'', JArr [])])\<close>
  \<open>parse_contents example ''{"cells":5}'' = Inr (JObj [(''cells'', JNum 5)])\<close>
  \<open>parse_contents example ''{"cells":null}'' = Inr (JObj [(''cells'', JNull)])\<close>
  \<open>parse_contents example ''{}'' = Inr (JObj [])\<close>
  \<open>parse_contents example ''null'' = Inr JNull\<close>
  \<open>parse_contents example ''{'' = Inl SyntaxError\<close>
  \<open>parse_contents example scenario_text = Inr scenario_json\<close>
  \<open>parse_contents example indented_text = Inr indented_json\<close>
  \<open>parse_contents example indented_no_cells_text = Inr (JObj [(''nbformat'', JNum 4)])\<close>
  by (simp_all add: parse_contents_def example_def example_JSON_parse_def example_texts)

lemma example_texts_nonempty:
  "scenario_text \<noteq> []" "indented_text \<noteq> []" "indented_no_cells_text \<noteq> []"
  by (simp_all add: example_texts)

lemma example_detect:
  "detectIndent example indented_text = ''    ''"
  "detectIndent example indented_no_cells_text = ''    ''"
  "detectIndent example scenario_text = []"
  \<open>detectIndent example ''{"cells":[]}'' = []\<close>
  \<open>detectIndent example ''null'' = []\<close>
  by (simp_all add: example_def example_detectIndent_def example_texts)

lemma example_simps:
  "JSON_parse example = example_JSON_parse"
  "uuid example n = ''notebook-'' @ replicate n (CHR ''i'')"
  "sendLanguageTelemetry example json = None"
  "getPreferredLanguage example md = Inr ''python''"
  "notebookModelToVSCNotebookData example = example_notebookModelToVSCNotebookData"
  "createJupyterCellFromVSCNotebookCell example cell = Inr (snd cell)"
  "pruneCell example v = Inr v"
  "new_NotebookDocumentMetadata example = [''trusted'' \<mapsto> JBool True]"
  by (simp_all add: example_def)

lemma example_uuid_inj: "inj (uuid example)"
  by (auto simp: example_def inj_def dest: arg_cong [where f = length])

lemma example_empty_cells_decoded:
  \<open>deserializeNotebook example ''{"cells":[]}'' w =
     (Inr \<lparr>cells = [(''python'', blank_cell)],
           metadata = [''indentAmount'' \<mapsto> JStr [],
                       ''__vsc_id'' \<mapsto> JStr (''notebook-'' @ replicate (uuid_calls w) (CHR ''i''))]\<rparr>,
      w\<lparr>telemetry_sent := telemetry_sent w @ [JObj [(''cells'', JArr [])]],
        uuid_calls := Suc (uuid_calls w)\<rparr>)\<close>
  by (simp add: deserializeNotebook_def example_parse example_detect example_simps no_cells_def
      example_texts_nonempty
      ensure_blank_cell_def or_else_def example_notebookModelToVSCNotebookData_def
      load_metadata_def)

lemma example_cells5_decoded:
  \<open>deserializeNotebook example ''{"cells":5}'' w =
     (Inl (CollaboratorFailure ''nbCells.map is not a function''),
      w\<lparr>telemetry_sent := telemetry_sent w @ [JObj [(''cells'', JNum 5)]]\<rparr>)\<close>
  by (simp add: deserializeNotebook_def example_parse example_detect example_simps no_cells_def
      example_texts_nonempty
      ensure_blank_cell_def or_else_def example_notebookModelToVSCNotebookData_def
      load_metadata_def)

lemma example_null_decoded:
  \<open>deserializeNotebook example ''null'' w =
     (Inr \<lparr>cells = [],
           metadata = [''indentAmount'' \<mapsto> JStr [],
                       ''__vsc_id'' \<mapsto> JStr (''notebook-'' @ replicate (uuid_calls w) (CHR ''i''))]\<rparr>,
      w\<lparr>uuid_calls := Suc (uuid_calls w)\<rparr>)\<close>
  by (simp add: deserializeNotebook_def example_parse example_detect example_simps no_cells_def
      example_texts_nonempty
      ensure_blank_cell_def or_else_def example_notebookModelToVSCNotebookData_def
      load_metadata_def)

lemma example_scenario_decoded:
  \<open>deserializeNotebook example scenario_text w =
     (Inr \<lparr>cells = [(''python'', JObj [(''cell_type'', JStr ''markdown''), (''metadata'', JObj []),
                              (''source'', JStr ''# Hi'')])],
           metadata = [''indentAmount'' \<mapsto> JStr [],
                       ''__vsc_id'' \<mapsto> JStr (''notebook-'' @ replicate (uuid_calls w) (CHR ''i'')),
                       ''nbformat'' \<mapsto> JNum 4, ''nbformat_minor'' \<mapsto> JNum 2]\<rparr>,
      w\<lparr>telemetry_sent := telemetry_sent w @ [scenario_json],
        uuid_calls := Suc (uuid_calls w)\<rparr>)\<close>
  by (simp add: deserializeNotebook_def example_parse example_detect example_simps no_cells_def
      example_texts_nonempty
      ensure_blank_cell_def or_else_def example_notebookModelToVSCNotebookData_def
      load_metadata_def scenario_json_def)

lemma example_indented_decoded:
  \<open>deserializeNotebook example indented_text w =
     (Inr \<lparr>cells = [(''python'', blank_cell)],
           metadata = [''indentAmount'' \<mapsto> JStr ''    '',
                       ''__vsc_id'' \<mapsto> JStr (''notebook-'' @ replicate (uuid_calls w) (CHR ''i'')),
                       ''nbformat'' \<mapsto> JNum 4]\<rparr>,
      w\<lparr>telemetry_sent := telemetry_sent w @ [indented_json],
        uuid_calls := Suc (uuid_calls w)\<rparr>)\<close>
  by (simp add: deserializeNotebook_def example_parse example_detect example_simps no_cells_def
      example_texts_nonempty
      ensure_blank_cell_def or_else_def example_notebookModelToVSCNotebookData_def
      load_metadata_def indented_json_def)

lemma example_indented_no_cells_decoded:
  \<open>deserializeNotebook example indented_no_cells_text w =
     (Inr \<lparr>cells = [], metadata = [''trusted'' \<mapsto> JBool True]\<rparr>, w)\<close>
  by (simp add: deserializeNotebook_def example_parse example_simps no_cells_def)

lemma example_empty_text_decoded:
  \<open>deserializeNotebook example [] w =
     (Inr \<lparr>cells = [],
           metadata = [''indentAmount'' \<mapsto> JStr '' '',
                       ''__vsc_id'' \<mapsto> JStr (''notebook-'' @ replicate (uuid_calls w) (CHR ''i''))]\<rparr>,
      w\<lparr>uuid_calls := Suc (uuid_calls w)\<rparr>)\<close>
  by (simp add: deserializeNotebook_def parse_contents_def example_simps no_cells_def
      ensure_blank_cell_def or_else_def example_notebookModelToVSCNotebookData_def
      load_metadata_def)

lemma example_blank_cell_becomes_one_cell: "blank_cell_becomes_one_cell example"
  by (auto simp: blank_cell_becomes_one_cell_def example_simps
      example_notebookModelToVSCNotebookData_def)

lemma example_converters_are_inverse: "converters_are_inverse example"
  by (auto simp: converters_are_inverse_def example_def example_notebookModelToVSCNotebookData_def
      map_throw_Inr comp_def split: jsval.splits)


section \<open>The claims\<close>

subsection \<open>C1: the round trip of a notebook with cells\<close>

text \<open>
  Claim C1 says that decoding a notebook with at least one cell and encoding the model
  keeps the cells and the \<^verbatim>\<open>nbformat\<close> of the input. On the scenario of the
  specification, \<^verbatim>\<open>nbformat\<close> 4 and \<^verbatim>\<open>nbformat_minor\<close> 2, the cell comes back, but the
  encoded document has \<^verbatim>\<open>nbformat\<close> 2: line 90 assigns the minor version to
  \<^verbatim>\<open>json.nbformat\<close>.
\<close>

theorem roundtrip_overwrites_nbformat_with_minor:
  "getprop scenario_json ''nbformat'' = JNum 4 \<and>
   (case fst (deserializeNotebook example scenario_text w0) of
      Inl e \<Rightarrow> Inl e
    | Inr d \<Rightarrow> serialize_json example (Data d)) =
   Inr (JObj [(''cells'', JArr [JObj [(''cell_type'', JStr ''markdown''), (''metadata'', JObj []),
                                      (''source'', JStr ''# Hi'')]]),
              (''metadata'', JObj [(''orig_nbformat'', JNum 4)]),
              (''nbformat'', JNum 2),
              (''nbformat_minor'', JNum 2)])"
  by (simp add: example_scenario_decoded serialize_json_def example_simps scenario_json_def)

text \<open>
  The part of C1 about the cells holds (X1): when the parsed document has a non-empty
  sequence of cells and the per-cell converters are mutual inverses, the encoded object
  holds exactly the stored cells of the input, in their order.
\<close>

theorem roundtrip_preserves_cells:
  assumes "parse_contents c contents = Inr json"
    and "getprop json ''cells'' = JArr cs" and "cs \<noteq> []"
    and "deserializeNotebook c contents w = (Inr d, w')"
    and "converters_are_inverse c"
  shows "\<exists>json'. serialize_json c (Data d) = Inr json' \<and> getprop json' ''cells'' = JArr cs"
proof -
  from assms(2) have ng: "\<not> no_cells json" by (simp add: no_cells_def)
  from assms(2,3) have e: "ensure_blank_cell json = json"
    by (simp add: ensure_blank_cell_def)
  from deserialize_success [OF assms(1) ng assms(4)] obtain lang d0 stripped original where
    "notebookModelToVSCNotebookData c stripped (JArr cs) lang original = Inr d0"
    and d: "cells d = cells d0"
    unfolding e by (auto simp: assms(2) or_else_def)
  with assms(3,5) obtain jcs where
    "map_throw (createJupyterCellFromVSCNotebookCell c) (cells d0) = Inr jcs"
    and "map_throw (pruneCell c) jcs = Inr cs"
    unfolding converters_are_inverse_def by blast
  with d serialize_json_cells [of c "Data d" jcs cs] show ?thesis by simp
qed

theorem roundtrip_preserves_cells_witness:
  "parse_contents example scenario_text = Inr scenario_json \<and>
   converters_are_inverse example \<and>
   getprop scenario_json ''cells'' =
     JArr [JObj [(''cell_type'', JStr ''markdown''), (''metadata'', JObj []), (''source'', JStr ''# Hi'')]] \<and>
   (\<exists>json'. serialize_json example
               (Data (projr (fst (deserializeNotebook example scenario_text w0)))) = Inr json' \<and>
            getprop json' ''cells'' =
              JArr [JObj [(''cell_type'', JStr ''markdown''), (''metadata'', JObj []),
                          (''source'', JStr ''# Hi'')]])"
proof -
  obtain d w1 where h: "deserializeNotebook example scenario_text w0 = (Inr d, w1)"
    by (simp add: example_scenario_decoded)
  have p: "parse_contents example scenario_text = Inr scenario_json" by (rule example_parse)
  have g: "getprop scenario_json ''cells'' =
     JArr [JObj [(''cell_type'', JStr ''markdown''), (''metadata'', JObj []), (''source'', JStr ''# Hi'')]]"
    by (simp add: scenario_json_def)
  have n: "[JObj [(''cell_type'', JStr ''markdown''), (''metadata'', JObj []), (''source'', JStr ''# Hi'')]] \<noteq> []"
    by simp
  from roundtrip_preserves_cells [OF p g n h example_converters_are_inverse] h p g
  show ?thesis
    by (simp add: example_converters_are_inverse)
qed

subsection \<open>C2: the minor version goes into the nbformat slot\<close>

text \<open>
  Claim C2. For every input to \<^verbatim>\<open>serialize\<close> whose metadata has the key
  \<^verbatim>\<open>nbformat_minor\<close>, the value of that key is the \<^verbatim>\<open>nbformat\<close> field of the object
  that is stringified, whatever the metadata say of \<^verbatim>\<open>nbformat\<close>. With
  \<^verbatim>\<open>nbformat_minor\<close> 5 and no \<^verbatim>\<open>nbformat\<close>, the output's \<^verbatim>\<open>nbformat\<close> is 5 (the witness).
\<close>

theorem serialize_writes_nbformat_minor_into_nbformat:
  assumes "metadata_of data ''nbformat_minor'' = Some v"
    and "serialize_json c data = Inr json"
  shows "getprop json ''nbformat'' = v \<and>
         serialize c data = Inr (JSON_stringify json (indentAmount_of (metadata_of data)))"
proof -
  from serialize_json_shape [OF assms(2)] assms(1) have "getprop json ''nbformat'' = v"
    by auto
  moreover from assms(2) have
    "serialize c data = Inr (JSON_stringify json (indentAmount_of (metadata_of data)))"
    by (simp add: serialize_def)
  ultimately show ?thesis by simp
qed

theorem serialize_writes_nbformat_minor_into_nbformat_witness:
  "metadata_of (Data \<lparr>cells = [], metadata = [''nbformat_minor'' \<mapsto> JNum 5]\<rparr>) ''nbformat_minor''
     = Some (JNum 5) \<and>
   metadata_of (Data \<lparr>cells = [], metadata = [''nbformat_minor'' \<mapsto> JNum 5]\<rparr>) ''nbformat'' = None \<and>
   serialize_json example (Data \<lparr>cells = [], metadata = [''nbformat_minor'' \<mapsto> JNum 5]\<rparr>) =
     Inr (JObj [(''cells'', JArr []), (''metadata'', JObj [(''orig_nbformat'', JNum 4)]),
                (''nbformat'', JNum 5), (''nbformat_minor'', JNum 2)]) \<and>
   getprop (JObj [(''cells'', JArr []), (''metadata'', JObj [(''orig_nbformat'', JNum 4)]),
                  (''nbformat'', JNum 5), (''nbformat_minor'', JNum 2)]) ''nbformat'' = JNum 5"
proof -
  let ?d = "Data \<lparr>cells = ([] :: (string \<times> jsval) list), metadata = [''nbformat_minor'' \<mapsto> JNum 5]\<rparr>"
  let ?j = "JObj [(''cells'', JArr []), (''metadata'', JObj [(''orig_nbformat'', JNum 4)]),
                  (''nbformat'', JNum 5), (''nbformat_minor'', JNum 2)]"
  have h1: "metadata_of ?d ''nbformat_minor'' = Some (JNum 5)" by simp
  have h2: "serialize_json example ?d = Inr ?j"
    by (simp add: serialize_json_def example_def)
  have h3: "metadata_of ?d ''nbformat'' = None" by simp
  from serialize_writes_nbformat_minor_into_nbformat [OF h1 h2] h1 h2 h3 show ?thesis
    by simp
qed

subsection \<open>C3: the identifier of a loaded notebook\<close>

text \<open>
  Claim C3, amended. Every model that \<^verbatim>\<open>deserializeNotebook\<close> returns past the guard
  of line 32 (the text is empty, or the parsed document is falsy, or it has truthy
  cells) carries under \<^verbatim>\<open>__vsc_id\<close> the identifier that \<^verbatim>\<open>uuid()\<close> returned in that
  call; when \<^verbatim>\<open>uuid()\<close> never returns the same identifier twice, the identifiers of two
  loads differ, also on identical input. A document without cells takes the return of
  line 33 and its model has the default metadata, without an identifier (the
  counterexample).
\<close>

theorem loads_past_guard_have_distinct_identifiers:
  assumes "inj (uuid c)"
    and "parse_contents c x = Inr jx" and "\<not> no_cells jx"
    and "deserializeNotebook c x w = (Inr d1, w1)"
    and "uuid_calls w1 \<le> uuid_calls w2"
    and "parse_contents c y = Inr jy" and "\<not> no_cells jy"
    and "deserializeNotebook c y w2 = (Inr d2, w3)"
  shows "metadata d1 ''__vsc_id'' = Some (JStr (uuid c (uuid_calls w))) \<and>
         metadata d2 ''__vsc_id'' = Some (JStr (uuid c (uuid_calls w2))) \<and>
         uuid_calls w1 = Suc (uuid_calls w) \<and>
         metadata d1 ''__vsc_id'' \<noteq> metadata d2 ''__vsc_id'' \<and>
         (parse_contents c z = Inr jz \<and> no_cells jz \<longrightarrow>
            deserializeNotebook c z w =
              (Inr \<lparr>cells = [], metadata = new_NotebookDocumentMetadata c\<rparr>, w))"
proof -
  have s: "parse_contents c z = Inr jz \<and> no_cells jz \<longrightarrow>
            deserializeNotebook c z w =
              (Inr \<lparr>cells = [], metadata = new_NotebookDocumentMetadata c\<rparr>, w)"
    by (simp add: deserialize_short_circuit)
  from deserialize_success [OF assms(2,3,4)]
  have a: "metadata d1 ''__vsc_id'' = Some (JStr (uuid c (uuid_calls w)))"
    and b: "uuid_calls w1 = Suc (uuid_calls w)"
    by (auto simp: load_metadata_vsc_id)
  from deserialize_success [OF assms(6,7,8)]
  have c: "metadata d2 ''__vsc_id'' = Some (JStr (uuid c (uuid_calls w2)))"
    by (auto simp: load_metadata_vsc_id)
  from b assms(5) have "uuid_calls w \<noteq> uuid_calls w2" by simp
  with assms(1) have "uuid c (uuid_calls w) \<noteq> uuid c (uuid_calls w2)"
    by (simp add: inj_eq)
  with a b c s show ?thesis by simp
qed

theorem loads_past_guard_have_distinct_identifiers_witness:
  \<open>inj (uuid example) \<and>
   parse_contents example ''{"cells":[]}'' = Inr (JObj [(''cells'', JArr [])]) \<and>
   \<not> no_cells (JObj [(''cells'', JArr [])]) \<and>
   metadata (projr (fst (deserializeNotebook example ''{"cells":[]}'' w0))) ''__vsc_id''
     = Some (JStr ''notebook-'') \<and>
   metadata (projr (fst (deserializeNotebook example ''{"cells":[]}''
                           (snd (deserializeNotebook example ''{"cells":[]}'' w0))))) ''__vsc_id''
     = Some (JStr ''notebook-i'') \<and>
   metadata (projr (fst (deserializeNotebook example ''{"cells":[]}'' w0))) ''__vsc_id'' \<noteq>
   metadata (projr (fst (deserializeNotebook example ''{"cells":[]}''
                           (snd (deserializeNotebook example ''{"cells":[]}'' w0))))) ''__vsc_id'' \<and>
   parse_contents example ''{}'' = Inr (JObj []) \<and> no_cells (JObj []) \<and>
   deserializeNotebook example ''{}'' w0 = (Inr \<lparr>cells = [], metadata = [''trusted'' \<mapsto> JBool True]\<rparr>, w0)\<close>
proof -
  have pz: \<open>parse_contents example ''{}'' = Inr (JObj [])\<close> by (rule example_parse)
  have gz: "no_cells (JObj [])" by (simp add: no_cells_def)
  let ?t = \<open>''{"cells":[]}''\<close>
  let ?j = "JObj [(''cells'', JArr [])]"
  obtain d1 w1 where h1: "deserializeNotebook example ?t w0 = (Inr d1, w1)"
    by (simp add: example_empty_cells_decoded)
  obtain d2 w3 where h2: "deserializeNotebook example ?t w1 = (Inr d2, w3)"
    by (simp add: example_empty_cells_decoded)
  have p: "parse_contents example ?t = Inr ?j" by (rule example_parse)
  have g: "\<not> no_cells ?j" by (simp add: no_cells_def)
  have le: "uuid_calls w1 \<le> uuid_calls w1" by simp
  from h1 have u: "uuid_calls w0 = 0" by (simp add: w0_def)
  from loads_past_guard_have_distinct_identifiers [OF example_uuid_inj p g h1 le p g h2,
      of \<open>''{}''\<close> "JObj []"] h1 h2 u pz gz
  show ?thesis
    by (simp add: example_uuid_inj p g example_simps)
qed

theorem load_without_cells_has_no_identifier_counterexample:
  \<open>deserializeNotebook example ''{}'' w0 =
     (Inr \<lparr>cells = [], metadata = new_NotebookDocumentMetadata example\<rparr>, w0) \<and>
   new_NotebookDocumentMetadata example ''__vsc_id'' = None\<close>
  by (simp add: deserializeNotebook_def example_parse example_simps no_cells_def)

subsection \<open>C4: the metadata of the encoded document\<close>

text \<open>
  Claim C4, amended. No key of the model's metadata is passed through: the metadata of
  the encoded document are always exactly \<^verbatim>\<open>{orig_nbformat: 4}\<close>, and the encoded
  document depends on the model's metadata only through the keys \<^verbatim>\<open>nbformat\<close>,
  \<^verbatim>\<open>nbformat_minor\<close> and \<^verbatim>\<open>indentAmount\<close>: two inputs with the same cells that agree on
  these three keys are encoded alike.
\<close>

theorem serialize_metadata_is_fixed:
  assumes "cells_of data' = cells_of data"
    and "metadata_of data' ''nbformat'' = metadata_of data ''nbformat''"
    and "metadata_of data' ''nbformat_minor'' = metadata_of data ''nbformat_minor''"
    and "metadata_of data' ''indentAmount'' = metadata_of data ''indentAmount''"
    and "serialize_json c data = Inr json"
  shows "getprop json ''metadata'' = JObj [(''orig_nbformat'', JNum 4)] \<and>
         serialize_json c data' = Inr json \<and>
         serialize c data' = serialize c data"
proof -
  from serialize_json_shape [OF assms(5)]
  have a: "getprop json ''metadata'' = JObj [(''orig_nbformat'', JNum 4)]" by auto
  from assms(1-3) have b: "serialize_json c data' = serialize_json c data"
    by (simp add: serialize_json_def)
  from assms(4) have "indentAmount_of (metadata_of data') = indentAmount_of (metadata_of data)"
    by (simp add: indentAmount_of_def)
  with b have "serialize c data' = serialize c data" by (simp add: serialize_def split: sum.splits)
  with a b assms(5) show ?thesis by simp
qed

theorem serialize_metadata_is_fixed_witness:
  "serialize_json example
      (Data \<lparr>cells = [], metadata = [''kernelspec'' \<mapsto> JStr ''python3'', ''nbformat'' \<mapsto> JNum 4]\<rparr>) =
     Inr (JObj [(''cells'', JArr []), (''metadata'', JObj [(''orig_nbformat'', JNum 4)]),
                (''nbformat'', JNum 4), (''nbformat_minor'', JNum 2)]) \<and>
   serialize example (Data \<lparr>cells = [], metadata = [''nbformat'' \<mapsto> JNum 4]\<rparr>) =
   serialize example
      (Data \<lparr>cells = [], metadata = [''kernelspec'' \<mapsto> JStr ''python3'', ''nbformat'' \<mapsto> JNum 4]\<rparr>)"
proof -
  let ?d = "Data \<lparr>cells = ([] :: (string \<times> jsval) list),
                  metadata = [''kernelspec'' \<mapsto> JStr ''python3'', ''nbformat'' \<mapsto> JNum 4]\<rparr>"
  let ?d' = "Data \<lparr>cells = ([] :: (string \<times> jsval) list), metadata = [''nbformat'' \<mapsto> JNum 4]\<rparr>"
  have h1: "cells_of ?d' = cells_of ?d" by simp
  have h2: "metadata_of ?d' ''nbformat'' = metadata_of ?d ''nbformat''" by simp
  have h3: "metadata_of ?d' ''nbformat_minor'' = metadata_of ?d ''nbformat_minor''" by simp
  have h4: "metadata_of ?d' ''indentAmount'' = metadata_of ?d ''indentAmount''" by simp
  have h5: "serialize_json example ?d =
     Inr (JObj [(''cells'', JArr []), (''metadata'', JObj [(''orig_nbformat'', JNum 4)]),
                (''nbformat'', JNum 4), (''nbformat_minor'', JNum 2)])"
    by (simp add: serialize_json_def example_def)
  from serialize_metadata_is_fixed [OF h1 h2 h3 h4 h5] h5 show ?thesis by simp
qed

theorem serialize_metadata_not_passed_through_counterexample:
  "metadata_of (Data \<lparr>cells = [], metadata = [''kernelspec'' \<mapsto> JStr ''python3'']\<rparr>) ''kernelspec''
     = Some (JStr ''python3'') \<and>
   serialize_json example (Data \<lparr>cells = [], metadata = [''kernelspec'' \<mapsto> JStr ''python3'']\<rparr>) =
     Inr (JObj [(''cells'', JArr []), (''metadata'', JObj [(''orig_nbformat'', JNum 4)]),
                (''nbformat'', JNum 4), (''nbformat_minor'', JNum 2)]) \<and>
   getprop (getprop (JObj [(''cells'', JArr []), (''metadata'', JObj [(''orig_nbformat'', JNum 4)]),
                (''nbformat'', JNum 4), (''nbformat_minor'', JNum 2)]) ''metadata'') ''kernelspec''
     = JUndefined"
  by (simp add: serialize_json_def example_def)

subsection \<open>C5: documents without usable cells\<close>

text \<open>
  Claim C5, amended. The guard of line 32 tests truthiness. For every input whose parsed
  document is truthy and whose \<^verbatim>\<open>cells\<close> are missing or falsy (\<^verbatim>\<open>null\<close>, \<^verbatim>\<open>false\<close>,
  0, the empty string), which includes every truthy document that is not an object,
  \<^verbatim>\<open>deserializeNotebook\<close> returns the empty model with the default metadata and
  raises nothing, with no telemetry sent and no identifier drawn. Truthy cells that
  are not a sequence, and a document that parses to a falsy value, pass the guard
  (the counterexample).
\<close>

theorem falsy_cells_short_circuit:
  assumes "parse_contents c contents = Inr json"
    and "truthy json" and "\<not> truthy (getprop json ''cells'')"
  shows "deserializeNotebook c contents w =
           (Inr \<lparr>cells = [], metadata = new_NotebookDocumentMetadata c\<rparr>, w)"
  using assms by (simp add: deserialize_short_circuit no_cells_def)

theorem falsy_cells_short_circuit_witness:
  \<open>parse_contents example ''{"cells":null}'' = Inr (JObj [(''cells'', JNull)]) \<and>
   truthy (JObj [(''cells'', JNull)]) \<and>
   \<not> truthy (getprop (JObj [(''cells'', JNull)]) ''cells'') \<and>
   deserializeNotebook example ''{"cells":null}'' w0 =
     (Inr \<lparr>cells = [], metadata = [''trusted'' \<mapsto> JBool True]\<rparr>, w0)\<close>
proof -
  have p: \<open>parse_contents example ''{"cells":null}'' = Inr (JObj [(''cells'', JNull)])\<close>
    by (rule example_parse)
  have t: "truthy (JObj [(''cells'', JNull)])" by simp
  have f: "\<not> truthy (getprop (JObj [(''cells'', JNull)]) ''cells'')" by simp
  from falsy_cells_short_circuit [OF p t f, of w0] p t f show ?thesis
    by (simp add: example_simps)
qed

theorem truthy_cells_pass_the_guard_counterexample:
  \<open>deserializeNotebook example ''{"cells":5}'' w0 \<noteq>
     (Inr \<lparr>cells = [], metadata = new_NotebookDocumentMetadata example\<rparr>, w0) \<and>
   telemetry_sent (snd (deserializeNotebook example ''{"cells":5}'' w0)) = [JObj [(''cells'', JNum 5)]] \<and>
   deserializeNotebook example ''null'' w0 \<noteq>
     (Inr \<lparr>cells = [], metadata = new_NotebookDocumentMetadata example\<rparr>, w0) \<and>
   uuid_calls (snd (deserializeNotebook example ''null'' w0)) = 1\<close>
  by (simp add: example_cells5_decoded example_null_decoded w0_def)

subsection \<open>C6: a telemetry callback that throws\<close>

text \<open>
  Claim C6, amended. Line 42 calls the telemetry callback with no handler around it.
  For every input on which the callback is reached (the parsed document and its cells
  are truthy) and throws, \<^verbatim>\<open>deserializeNotebook\<close> does not complete: the exception
  leaves the call unchanged, after the callback was called with the parsed document.
\<close>

theorem telemetry_failure_propagates:
  assumes "parse_contents c contents = Inr json"
    and "truthy json" and "truthy (getprop json ''cells'')"
    and "sendLanguageTelemetry c json = Some e"
  shows "deserializeNotebook c contents w =
           (Inl (CollaboratorFailure e), w\<lparr>telemetry_sent := telemetry_sent w @ [json]\<rparr>)"
  using assms by (simp add: deserializeNotebook_def no_cells_def)

theorem telemetry_failure_propagates_witness:
  \<open>parse_contents (example\<lparr>sendLanguageTelemetry := (\<lambda>json. Some ''telemetry failed'')\<rparr>)
      scenario_text = Inr scenario_json \<and>
   truthy scenario_json \<and> truthy (getprop scenario_json ''cells'') \<and>
   deserializeNotebook (example\<lparr>sendLanguageTelemetry := (\<lambda>json. Some ''telemetry failed'')\<rparr>)
      scenario_text w0 =
     (Inl (CollaboratorFailure ''telemetry failed''),
      \<lparr>uuid_calls = 0, telemetry_sent = [scenario_json]\<rparr>)\<close>
proof -
  let ?c = "example\<lparr>sendLanguageTelemetry := (\<lambda>json. Some ''telemetry failed'')\<rparr>"
  have p: "parse_contents ?c scenario_text = Inr scenario_json"
    by (simp add: parse_contents_update example_parse)
  have t: "truthy scenario_json" by (simp add: scenario_json_def)
  have tc: "truthy (getprop scenario_json ''cells'')" by (simp add: scenario_json_def)
  have e: "sendLanguageTelemetry ?c scenario_json = Some ''telemetry failed''" by simp
  from telemetry_failure_propagates [OF p t tc e, of w0] p t tc show ?thesis
    by (simp add: w0_def)
qed

theorem telemetry_failure_propagates_counterexample:
  \<open>deserializeNotebook (example\<lparr>sendLanguageTelemetry := (\<lambda>json. Some ''telemetry failed'')\<rparr>)
      ''{"cells":[]}'' w0 =
     (Inl (CollaboratorFailure ''telemetry failed''),
      \<lparr>uuid_calls = 0, telemetry_sent = [JObj [(''cells'', JArr [])]]\<rparr>)\<close>
  by (simp add: deserializeNotebook_def parse_contents_def example_def example_JSON_parse_def
      example_texts no_cells_def w0_def)

subsection \<open>C7: the blank cell of an empty notebook\<close>

text \<open>
  Claim C7. For every input whose parsed document has a \<^verbatim>\<open>cells\<close> sequence with no
  entries, \<^verbatim>\<open>deserializeNotebook\<close> replaces the cells by exactly one blank code cell
  before it calls the converter: the cell of lines 48 to 54, with exactly the five
  fields \<^verbatim>\<open>cell_type\<close> \<^verbatim>\<open>code\<close>, \<^verbatim>\<open>execution_count\<close> \<^verbatim>\<open>null\<close>, \<^verbatim>\<open>metadata\<close> the empty
  object, \<^verbatim>\<open>outputs\<close> the empty sequence and \<^verbatim>\<open>source\<close> the empty string. The converter
  gets that one cell, and the document holding it, and the cells of the model are
  those the converter made of it: with a converter that makes one cell model of the
  blank cell, the model has exactly one cell.
\<close>

theorem empty_cells_get_one_blank_cell:
  assumes "parse_contents c contents = Inr json"
    and "getprop json ''cells'' = JArr []"
    and "deserializeNotebook c contents w = (Inr d, w')"
    and "blank_cell_becomes_one_cell c"
  shows "getprop (ensure_blank_cell json) ''cells'' =
           JArr [JObj [(''cell_type'', JStr ''code''), (''execution_count'', JNull),
                       (''metadata'', JObj []), (''outputs'', JArr []), (''source'', JStr [])]] \<and>
         ensure_blank_cell json =
           setprop json ''cells''
             (JArr [JObj [(''cell_type'', JStr ''code''), (''execution_count'', JNull),
                          (''metadata'', JObj []), (''outputs'', JArr []), (''source'', JStr [])]]) \<and>
         (\<exists>lang d0.
            notebookModelToVSCNotebookData c
              (setprop json ''cells'' (JArr []))
              (JArr [JObj [(''cell_type'', JStr ''code''), (''execution_count'', JNull),
                           (''metadata'', JObj []), (''outputs'', JArr []), (''source'', JStr [])]])
              lang
              (setprop json ''cells''
                 (JArr [JObj [(''cell_type'', JStr ''code''), (''execution_count'', JNull),
                              (''metadata'', JObj []), (''outputs'', JArr []),
                              (''source'', JStr [])]])) = Inr d0 \<and>
            cells d = cells d0) \<and>
         length (cells d) = 1 \<and>
         getprop blank_cell ''cell_type'' = JStr ''code'' \<and>
         getprop blank_cell ''execution_count'' = JNull \<and>
         getprop blank_cell ''metadata'' = JObj [] \<and>
         getprop blank_cell ''outputs'' = JArr [] \<and>
         getprop blank_cell ''source'' = JStr [] \<and>
         length (spread blank_cell) = 5"
proof -
  let ?b = "JObj [(''cell_type'', JStr ''code''), (''execution_count'', JNull),
                  (''metadata'', JObj []), (''outputs'', JArr []), (''source'', JStr [])]"
  have b: "blank_cell = ?b" by (simp add: blank_cell_def)
  from assms(2) obtain kvs where j: "json = JObj kvs" by (cases json) (auto split: if_splits)
  from assms(2) have ng: "\<not> no_cells json" by (simp add: no_cells_def)
  from assms(2) have e: "ensure_blank_cell json = setprop json ''cells'' (JArr [?b])"
    by (simp add: ensure_blank_cell_def b)
  have "getprop (setprop json ''cells'' (JArr [?b])) ''cells'' = JArr [?b]"
    unfolding j by (simp add: update_conv')
  then have g: "getprop (ensure_blank_cell json) ''cells'' = JArr [?b]"
    by (simp add: e)
  from deserialize_success [OF assms(1) ng assms(3)] obtain lang d0 where
    conv: "notebookModelToVSCNotebookData c
        (JObj (AList.update ''cells'' (JArr []) (spread (ensure_blank_cell json))))
        (or_else (getprop (ensure_blank_cell json) ''cells'') (JArr []))
        lang
        (or_else (ensure_blank_cell json) (JObj [])) = Inr d0"
    and d: "cells d = cells d0"
    by auto
  have s: "JObj (AList.update ''cells'' (JArr []) (spread (ensure_blank_cell json)))
             = setprop json ''cells'' (JArr [])"
    by (simp add: e) (simp add: j)
  have o: "or_else (ensure_blank_cell json) (JObj []) = setprop json ''cells'' (JArr [?b])"
    by (simp add: e) (simp add: j or_else_def)
  from conv have conv': "notebookModelToVSCNotebookData c (setprop json ''cells'' (JArr []))
      (JArr [?b]) lang (setprop json ''cells'' (JArr [?b])) = Inr d0"
    unfolding s o g by (simp add: or_else_def)
  with assms(4) have l: "length (cells d0) = 1"
    unfolding blank_cell_becomes_one_cell_def by fastforce
  have f: "getprop blank_cell ''cell_type'' = JStr ''code'' \<and>
         getprop blank_cell ''execution_count'' = JNull \<and>
         getprop blank_cell ''metadata'' = JObj [] \<and>
         getprop blank_cell ''outputs'' = JArr [] \<and>
         getprop blank_cell ''source'' = JStr [] \<and>
         length (spread blank_cell) = 5"
    by (simp add: b)
  from e g conv' d l f show ?thesis by auto
qed

theorem empty_cells_get_one_blank_cell_witness:
  \<open>parse_contents example ''{"cells":[]}'' = Inr (JObj [(''cells'', JArr [])]) \<and>
   getprop (JObj [(''cells'', JArr [])]) ''cells'' = JArr [] \<and>
   blank_cell_becomes_one_cell example \<and>
   cells (projr (fst (deserializeNotebook example ''{"cells":[]}'' w0))) =
     [(''python'', JObj [(''cell_type'', JStr ''code''), (''execution_count'', JNull),
                         (''metadata'', JObj []), (''outputs'', JArr []), (''source'', JStr [])])] \<and>
   length (cells (projr (fst (deserializeNotebook example ''{"cells":[]}'' w0)))) = 1\<close>
proof -
  let ?t = \<open>''{"cells":[]}''\<close>
  let ?j = "JObj [(''cells'', JArr [])]"
  obtain d w1 where h: "deserializeNotebook example ?t w0 = (Inr d, w1)"
    by (simp add: example_empty_cells_decoded)
  have p: "parse_contents example ?t = Inr ?j" by (rule example_parse)
  have g: "getprop ?j ''cells'' = JArr []" by simp
  have c: "cells d = [(''python'', JObj [(''cell_type'', JStr ''code''), (''execution_count'', JNull),
                         (''metadata'', JObj []), (''outputs'', JArr []), (''source'', JStr [])])]"
    using h by (auto simp: example_empty_cells_decoded blank_cell_def)
  from empty_cells_get_one_blank_cell [OF p g h example_blank_cell_becomes_one_cell] h p c
  show ?thesis
    by (simp add: example_blank_cell_becomes_one_cell)
qed

subsection \<open>C8: malformed input\<close>

text \<open>
  Claim C8. \<^verbatim>\<open>deserializeNotebook\<close> raises the error of \<^verbatim>\<open>JSON.parse\<close> exactly when
  the text is not empty and \<^verbatim>\<open>JSON.parse\<close> rejects it, and then nothing else happened.
  Empty text is not parsed (the result does not depend on \<^verbatim>\<open>JSON.parse\<close>), and where
  the language service and the converter return, the call succeeds with the defaults:
  the converter gets no cells and an empty document, the indentation is one space, and
  no schema version is recorded.
\<close>

theorem syntax_error_exactly_on_unparseable_text:
  "(fst (deserializeNotebook c contents w) = Inl SyntaxError
      \<longleftrightarrow> contents \<noteq> [] \<and> JSON_parse c contents = None) \<and>
   (contents \<noteq> [] \<and> JSON_parse c contents = None
      \<longrightarrow> deserializeNotebook c contents w = (Inl SyntaxError, w)) \<and>
   deserializeNotebook (c\<lparr>JSON_parse := p\<rparr>) [] w = deserializeNotebook c [] w \<and>
   (getPreferredLanguage c JUndefined = Inr lang \<and>
    notebookModelToVSCNotebookData c (JObj [(''cells'', JArr [])]) (JArr []) lang (JObj []) = Inr d0
      \<longrightarrow> deserializeNotebook c [] w =
            (Inr (d0\<lparr>metadata := metadata d0 ++
                     [''indentAmount'' \<mapsto> JStr '' '',
                      ''__vsc_id'' \<mapsto> JStr (uuid c (uuid_calls w))]\<rparr>),
             w\<lparr>uuid_calls := Suc (uuid_calls w)\<rparr>))"
proof -
  have a: "fst (deserializeNotebook c contents w) = Inl SyntaxError
      \<longleftrightarrow> contents \<noteq> [] \<and> JSON_parse c contents = None"
    by (simp add: deserialize_error_cases parse_contents_error)
  have b: "contents \<noteq> [] \<and> JSON_parse c contents = None
      \<longrightarrow> deserializeNotebook c contents w = (Inl SyntaxError, w)"
    by (simp add: deserializeNotebook_def parse_contents_def)
  have c: "deserializeNotebook (c\<lparr>JSON_parse := p\<rparr>) [] w = deserializeNotebook c [] w"
    by (simp add: deserializeNotebook_def parse_contents_def Let_def split: sum.splits)
  have d: "getPreferredLanguage c JUndefined = Inr lang \<and>
    notebookModelToVSCNotebookData c (JObj [(''cells'', JArr [])]) (JArr []) lang (JObj []) = Inr d0
      \<longrightarrow> deserializeNotebook c [] w =
            (Inr (d0\<lparr>metadata := metadata d0 ++
                     [''indentAmount'' \<mapsto> JStr '' '',
                      ''__vsc_id'' \<mapsto> JStr (uuid c (uuid_calls w))]\<rparr>),
             w\<lparr>uuid_calls := Suc (uuid_calls w)\<rparr>)"
    by (simp add: deserializeNotebook_def parse_contents_def no_cells_def ensure_blank_cell_def
        or_else_def load_metadata_def)
  from a b c d show ?thesis by blast
qed

theorem syntax_error_exactly_on_unparseable_text_witness:
  \<open>''{'' \<noteq> [] \<and> JSON_parse example ''{'' = None \<and>
   deserializeNotebook example ''{'' w0 = (Inl SyntaxError, w0) \<and>
   getPreferredLanguage example JUndefined = Inr ''python'' \<and>
   notebookModelToVSCNotebookData example (JObj [(''cells'', JArr [])]) (JArr []) ''python'' (JObj [])
     = Inr \<lparr>cells = [], metadata = Map.empty\<rparr> \<and>
   deserializeNotebook example [] w0 =
     (Inr \<lparr>cells = [],
           metadata = [''indentAmount'' \<mapsto> JStr '' '', ''__vsc_id'' \<mapsto> JStr ''notebook-'']\<rparr>,
      \<lparr>uuid_calls = 1, telemetry_sent = []\<rparr>)\<close>
proof -
  have h1: \<open>''{'' \<noteq> [] \<and> JSON_parse example ''{'' = None\<close>
    by (simp add: example_simps example_JSON_parse_def example_texts)
  have h2: "getPreferredLanguage example JUndefined = Inr ''python'' \<and>
     notebookModelToVSCNotebookData example (JObj [(''cells'', JArr [])]) (JArr []) ''python'' (JObj [])
     = Inr \<lparr>cells = [], metadata = Map.empty\<rparr>"
    by (simp add: example_simps example_notebookModelToVSCNotebookData_def)
  note t = syntax_error_exactly_on_unparseable_text
  from t [of example \<open>''{''\<close> w0] h1
  have r1: \<open>deserializeNotebook example ''{'' w0 = (Inl SyntaxError, w0)\<close> by blast
  from t [of example "[]" w0 _ "''python''" "\<lparr>cells = [], metadata = Map.empty\<rparr>"] h2
  have r2: "deserializeNotebook example [] w0 =
     (Inr (\<lparr>cells = [], metadata = Map.empty\<rparr>\<lparr>metadata := Map.empty ++
                     [''indentAmount'' \<mapsto> JStr '' '',
                      ''__vsc_id'' \<mapsto> JStr (uuid example (uuid_calls w0))]\<rparr>),
             w0\<lparr>uuid_calls := Suc (uuid_calls w0)\<rparr>)"
    by simp
  from h1 h2 r1 r2 show ?thesis by (simp add: example_simps w0_def)
qed

subsection \<open>C9: the indentation of a loaded notebook\<close>

text \<open>
  Claim C9, amended. For every non-empty input that passes the guard of line 32,
  \<^verbatim>\<open>deserializeNotebook\<close> records the unit that \<^verbatim>\<open>detectIndent\<close> found under
  \<^verbatim>\<open>indentAmount\<close>, and \<^verbatim>\<open>serialize\<close> of the unmodified model hands that unit to
  \<^verbatim>\<open>JSON.stringify\<close>, which indents with its first ten characters: every member of the
  encoded document starts a line with that gap, so a unit of four spaces gives back
  four spaces (the witness). An \<^verbatim>\<open>indentAmount\<close> that is absent or not a string
  stands for one space. A document without cells returns at line 33, before its
  indentation is recorded, and a unit longer than ten characters is cut
  (the counterexample).
\<close>

theorem detected_indentation_is_reused:
  assumes "parse_contents c contents = Inr json" and "contents \<noteq> []" and "\<not> no_cells json"
    and "deserializeNotebook c contents w = (Inr d, w')"
    and "serialize c (Data d) = Inr out"
    and "g = take 10 (detectIndent c contents)"
  shows \<open>metadata d ''indentAmount'' = Some (JStr (detectIndent c contents)) \<and>
     (\<exists>json'. serialize_json c (Data d) = Inr json' \<and>
        out = JSON_stringify json' (detectIndent c contents)) \<and>
     (g \<noteq> [] \<longrightarrow>
        (\<exists>cellsText nbformatMember.
           out = Some (''{'' @ ''\<newline>'' @ g @ ''"cells": '' @ cellsText
                  @ '','' @ ''\<newline>'' @ g @ ''"metadata": {''
                  @ ''\<newline>'' @ g @ g @ ''"orig_nbformat": 4''
                  @ ''\<newline>'' @ g @ ''}''
                  @ nbformatMember
                  @ '','' @ ''\<newline>'' @ g @ ''"nbformat_minor": 2'' @ ''\<newline>'' @ ''}'') \<and>
           (nbformatMember = [] \<or>
            (\<exists>s. nbformatMember = '','' @ ''\<newline>'' @ g @ ''"nbformat": '' @ s)))) \<and>
     ((md ''indentAmount'' = None \<or> (\<exists>v. md ''indentAmount'' = Some v \<and> (\<forall>s. v \<noteq> JStr s)))
        \<longrightarrow> indentAmount_of md = '' '') \<and>
     (parse_contents c z = Inr jz \<and> no_cells jz \<longrightarrow>
        deserializeNotebook c z w =
          (Inr \<lparr>cells = [], metadata = new_NotebookDocumentMetadata c\<rparr>, w))\<close>
proof -
  have sc: "parse_contents c z = Inr jz \<and> no_cells jz \<longrightarrow>
        deserializeNotebook c z w =
          (Inr \<lparr>cells = [], metadata = new_NotebookDocumentMetadata c\<rparr>, w)"
    by (simp add: deserialize_short_circuit)
  from deserialize_success [OF assms(1,3,4)] assms(2)
  have a: "metadata d ''indentAmount'' = Some (JStr (detectIndent c contents))"
    by (auto simp: load_metadata_indentAmount)
  then have i: "indentAmount_of (metadata_of (Data d)) = detectIndent c contents"
    by (simp add: indentAmount_of_def)
  from assms(5) obtain json' where j: "serialize_json c (Data d) = Inr json'"
    and o: "out = JSON_stringify json' (detectIndent c contents)"
    unfolding serialize_via_json i by blast
  have l: \<open>\<exists>cellsText nbformatMember.
           out = Some (''{'' @ ''\<newline>'' @ g @ ''"cells": '' @ cellsText
                  @ '','' @ ''\<newline>'' @ g @ ''"metadata": {''
                  @ ''\<newline>'' @ g @ g @ ''"orig_nbformat": 4''
                  @ ''\<newline>'' @ g @ ''}''
                  @ nbformatMember
                  @ '','' @ ''\<newline>'' @ g @ ''"nbformat_minor": 2'' @ ''\<newline>'' @ ''}'') \<and>
           (nbformatMember = [] \<or>
            (\<exists>s. nbformatMember = '','' @ ''\<newline>'' @ g @ ''"nbformat": '' @ s))\<close>
    if gap: "g \<noteq> []"
  proof -
    from serialize_json_shape [OF j] obtain pcs v where
      "json' = JObj [(''cells'', JArr pcs), (''metadata'', JObj [(''orig_nbformat'', JNum 4)]),
                     (''nbformat'', v), (''nbformat_minor'', JNum 2)]"
      by blast
    with o stringify_notebook_layout [OF assms(6) gap, of pcs v] show ?thesis
      by (cases "SerializeJSONProperty v g g") auto
  qed
  have m: "(md ''indentAmount'' = None \<or> (\<exists>v. md ''indentAmount'' = Some v \<and> (\<forall>s. v \<noteq> JStr s)))
        \<longrightarrow> indentAmount_of md = '' ''"
    by (auto simp: indentAmount_of_def split: option.splits jsval.splits)
  from a j o l m sc show ?thesis by blast
qed

theorem detected_indentation_is_reused_witness:
  \<open>parse_contents example indented_text = Inr indented_json \<and>
   indented_text \<noteq> [] \<and> \<not> no_cells indented_json \<and>
   detectIndent example indented_text = ''    '' \<and>
   metadata (projr (fst (deserializeNotebook example indented_text w0))) ''indentAmount''
     = Some (JStr ''    '') \<and>
   serialize example (Data (projr (fst (deserializeNotebook example indented_text w0)))) =
     Inr (Some ''{\<newline>    "cells": [\<newline>        {\<newline>            "cell_type": "code",\<newline>            "execution_count": null,\<newline>            "metadata": {},\<newline>            "outputs": [],\<newline>            "source": ""\<newline>        }\<newline>    ],\<newline>    "metadata": {\<newline>        "orig_nbformat": 4\<newline>    },\<newline>    "nbformat": 4,\<newline>    "nbformat_minor": 2\<newline>}'') \<and>
   indentAmount_of [''indentAmount'' \<mapsto> JNum 4] = '' '' \<and>
   parse_contents example indented_no_cells_text = Inr (JObj [(''nbformat'', JNum 4)]) \<and>
   no_cells (JObj [(''nbformat'', JNum 4)]) \<and>
   deserializeNotebook example indented_no_cells_text w0 =
     (Inr \<lparr>cells = [], metadata = [''trusted'' \<mapsto> JBool True]\<rparr>, w0)\<close>
proof -
  have pz: "parse_contents example indented_no_cells_text = Inr (JObj [(''nbformat'', JNum 4)])"
    by (rule example_parse)
  have gz: "no_cells (JObj [(''nbformat'', JNum 4)])" by (simp add: no_cells_def)
  obtain d w1 where h: "deserializeNotebook example indented_text w0 = (Inr d, w1)"
    by (simp add: example_indented_decoded)
  have p: "parse_contents example indented_text = Inr indented_json" by (rule example_parse)
  have n: "indented_text \<noteq> []" by (rule example_texts_nonempty)
  have g: "\<not> no_cells indented_json" by (simp add: no_cells_def indented_json_def)
  have s: \<open>serialize example (Data d) = Inr (Some ''{\<newline>    "cells": [\<newline>        {\<newline>            "cell_type": "code",\<newline>            "execution_count": null,\<newline>            "metadata": {},\<newline>            "outputs": [],\<newline>            "source": ""\<newline>        }\<newline>    ],\<newline>    "metadata": {\<newline>        "orig_nbformat": 4\<newline>    },\<newline>    "nbformat": 4,\<newline>    "nbformat_minor": 2\<newline>}'')\<close>
    using h by (auto simp: example_indented_decoded stringify_defs example_simps blank_cell_def)
  have t: "''    '' = take 10 (detectIndent example indented_text)"
    by (simp add: example_detect)
  from detected_indentation_is_reused [OF p n g h s t,
      of "[''indentAmount'' \<mapsto> JNum 4]" indented_no_cells_text "JObj [(''nbformat'', JNum 4)]"]
    h s p n g pz gz
  show ?thesis
    by (simp add: example_detect example_simps)
qed

theorem short_circuit_loses_indentation_counterexample:
  \<open>detectIndent example indented_no_cells_text = ''    '' \<and>
   deserializeNotebook example indented_no_cells_text w0 =
     (Inr \<lparr>cells = [], metadata = [''trusted'' \<mapsto> JBool True]\<rparr>, w0) \<and>
   serialize example (Data \<lparr>cells = [], metadata = [''trusted'' \<mapsto> JBool True]\<rparr>) =
     Inr (Some ''{\<newline> "cells": [],\<newline> "metadata": {\<newline>  "orig_nbformat": 4\<newline> },\<newline> "nbformat": 4,\<newline> "nbformat_minor": 2\<newline>}'') \<and>
   serialize example
     (Data \<lparr>cells = [], metadata = [''indentAmount'' \<mapsto> JStr ''            '']\<rparr>) =
     Inr (Some ''{\<newline>          "cells": [],\<newline>          "metadata": {\<newline>                    "orig_nbformat": 4\<newline>          },\<newline>          "nbformat": 4,\<newline>          "nbformat_minor": 2\<newline>}'')\<close>
  by (simp add: example_detect example_indented_no_cells_decoded stringify_defs example_simps)

subsection \<open>C10: the minor version of the encoded document\<close>

text \<open>
  Claim C10. For every input to \<^verbatim>\<open>serialize\<close>, the \<^verbatim>\<open>nbformat_minor\<close> field of the object
  that is stringified is 2, whatever the metadata of the input hold, also under the key
  \<^verbatim>\<open>nbformat_minor\<close>.
\<close>

theorem serialize_nbformat_minor_is_2:
  assumes "serialize_json c data = Inr json"
  shows "getprop json ''nbformat_minor'' = JNum 2 \<and>
         serialize c data = Inr (JSON_stringify json (indentAmount_of (metadata_of data)))"
  using serialize_json_shape [OF assms] assms by (auto simp: serialize_def)

theorem serialize_nbformat_minor_is_2_witness:
  "serialize_json example
     (Document ''jupyter-notebook'' [(''python'', blank_cell)]
        [''nbformat'' \<mapsto> JNum 4, ''nbformat_minor'' \<mapsto> JNum 5]) =
     Inr (JObj [(''cells'', JArr [blank_cell]), (''metadata'', JObj [(''orig_nbformat'', JNum 4)]),
                (''nbformat'', JNum 5), (''nbformat_minor'', JNum 2)]) \<and>
   getprop (JObj [(''cells'', JArr [blank_cell]), (''metadata'', JObj [(''orig_nbformat'', JNum 4)]),
                (''nbformat'', JNum 5), (''nbformat_minor'', JNum 2)]) ''nbformat_minor'' = JNum 2"
proof -
  have h: "serialize_json example
     (Document ''jupyter-notebook'' [(''python'', blank_cell)]
        [''nbformat'' \<mapsto> JNum 4, ''nbformat_minor'' \<mapsto> JNum 5]) =
     Inr (JObj [(''cells'', JArr [blank_cell]), (''metadata'', JObj [(''orig_nbformat'', JNum 4)]),
                (''nbformat'', JNum 5), (''nbformat_minor'', JNum 2)])"
    by (simp add: serialize_json_def example_def)
  from serialize_nbformat_minor_is_2 [OF h] h show ?thesis by simp
qed

subsection \<open>Further properties\<close>

text \<open>
  \<^verbatim>\<open>serialize\<close> always emits \<^verbatim>\<open>orig_nbformat\<close> 4 in the metadata of the encoded document,
  whatever the input holds under that key.
\<close>

theorem serialize_emits_orig_nbformat:
  assumes "serialize_json c data = Inr json"
  shows "getprop (getprop json ''metadata'') ''orig_nbformat'' = JNum 4"
  using serialize_json_shape [OF assms] by auto

theorem serialize_emits_orig_nbformat_witness:
  "serialize_json example (Data \<lparr>cells = [], metadata = [''orig_nbformat'' \<mapsto> JNum 3]\<rparr>) =
     Inr (JObj [(''cells'', JArr []), (''metadata'', JObj [(''orig_nbformat'', JNum 4)]),
                (''nbformat'', JNum 4), (''nbformat_minor'', JNum 2)]) \<and>
   getprop (getprop (JObj [(''cells'', JArr []), (''metadata'', JObj [(''orig_nbformat'', JNum 4)]),
                (''nbformat'', JNum 4), (''nbformat_minor'', JNum 2)]) ''metadata'') ''orig_nbformat''
     = JNum 4"
proof -
  have h: "serialize_json example
      (Data \<lparr>cells = ([] :: (string \<times> jsval) list), metadata = [''orig_nbformat'' \<mapsto> JNum 3]\<rparr>) =
     Inr (JObj [(''cells'', JArr []), (''metadata'', JObj [(''orig_nbformat'', JNum 4)]),
                (''nbformat'', JNum 4), (''nbformat_minor'', JNum 2)])"
    by (simp add: serialize_json_def example_def)
  from serialize_emits_orig_nbformat [OF h] h show ?thesis by simp
qed

text \<open>
  \<^verbatim>\<open>serialize\<close> has no failure of its own: it returns a text (never \<^verbatim>\<open>undefined\<close>, so
  \<^verbatim>\<open>serializeNotebook\<close> never gets a \<open>TypeError\<close> from \<^verbatim>\<open>Buffer.from\<close>) exactly when the
  per-cell converter and \<^verbatim>\<open>pruneCell\<close> return on every cell, and otherwise raises what
  they threw.
\<close>

theorem serialize_fails_only_with_the_converters:
  "serialize c data \<noteq> Inr None \<and>
   serialize c data \<noteq> Inl SyntaxError \<and>
   serialize c data \<noteq> Inl TypeError \<and>
   serializeNotebook c d \<noteq> Inl TypeError \<and>
   ((\<exists>text. serialize c data = Inr (Some text)) \<longleftrightarrow>
    (\<exists>jcs pcs. map_throw (createJupyterCellFromVSCNotebookCell c) (cells_of data) = Inr jcs \<and>
               map_throw (pruneCell c) jcs = Inr pcs))"
proof -
  have json: "\<exists>kvs. json = JObj kvs" if "serialize_json c x = Inr json" for x json
    using serialize_json_shape [OF that] by blast
  have some: "serialize c x \<noteq> Inr None" for x
    using json [of x] by (auto simp: serialize_def JSON_stringify_def split: sum.splits)
  have errs: "serialize c x \<noteq> Inl SyntaxError \<and> serialize c x \<noteq> Inl TypeError" for x
    by (auto simp: serialize_def serialize_json_def Let_def split: sum.splits
        dest: map_throw_error)
  have nb: "serializeNotebook c d \<noteq> Inl TypeError"
    using some [of "Data d"] errs [of "Data d"]
    by (auto simp: serializeNotebook_def split: sum.splits option.splits)
  have iff: "(\<exists>text. serialize c data = Inr (Some text)) \<longleftrightarrow>
    (\<exists>jcs pcs. map_throw (createJupyterCellFromVSCNotebookCell c) (cells_of data) = Inr jcs \<and>
               map_throw (pruneCell c) jcs = Inr pcs)"
    using some [of data]
    by (auto simp: serialize_def serialize_json_def Let_def split: sum.splits)
  from some errs nb iff show ?thesis by blast
qed

text \<open>
  The telemetry callback is called once, with the parsed document, exactly when the
  parsed document and its cells are truthy; on empty text, on a malformed or falsy
  document and at the return of line 33 it is not called.
\<close>

theorem telemetry_sent_when_reached:
  "telemetry_sent (snd (deserializeNotebook c contents w)) =
     (case parse_contents c contents of
        Inl e \<Rightarrow> telemetry_sent w
      | Inr json \<Rightarrow>
          if truthy json \<and> truthy (getprop json ''cells'')
          then telemetry_sent w @ [json] else telemetry_sent w)"
proof (cases "parse_contents c contents")
  case (Inl e)
  then show ?thesis by (simp add: deserializeNotebook_def)
next
  case (Inr json)
  show ?thesis
  proof (cases "no_cells json")
    case True
    with Inr show ?thesis by (simp add: deserialize_short_circuit) (simp add: no_cells_def)
  next
    case False
    show ?thesis
    proof (cases "truthy json")
      case True
      with False have "truthy (getprop json ''cells'')" by (simp add: no_cells_def)
      with True Inr deserialize_telemetry_sent [OF Inr False True, of w] show ?thesis by simp
    next
      case f: False
      with Inr False show ?thesis
        by (simp add: deserializeNotebook_def Let_def split: sum.splits)
    qed
  qed
qed

end
